theory Spec2Isabelle
  imports Main "HOL-Library.Word" "HOL-Library.Sublist"
begin

section \<open>The camera streaming server (camera\_stream\_api.py)\<close>

text \<open>
  The module keeps three globals: the label \<open>CAMERA_SOURCE\<close> and the two camera
  objects \<open>opencv_camera\<close> and \<open>libcamera_camera\<close> (each \<open>None\<close> or a handle).
  Every function below takes the globals as a record and returns them updated.
  The camera libraries (cv2, picamera2) are outside the module: what they answer to a
  call is an input of the model (the record \<open>world\<close>), and the calls the module makes
  on them are returned as a list of effects, in program order. Logging is left out.
\<close>

subsection \<open>Strings\<close>

text \<open>
  \<open>str.lower()\<close>, on the characters that decide a comparison with \<open>"opencv"\<close> or
  \<open>"libcamera"\<close>: the letters A to Z become a to z, every other character stays.
\<close>

definition lower_char :: "char \<Rightarrow> char" where
  "lower_char c =
     (let n = (of_char c :: nat) in if 65 \<le> n \<and> n \<le> 90 then char_of (n + 32) else c)"

definition lower :: "string \<Rightarrow> string" where
  "lower s = map lower_char s"

definition CRLF :: string where
  "CRLF = [CHR 0x0D, CHR 0x0A]"

subsection \<open>Frames\<close>

text \<open>
  A frame is the pixel buffer of a three-channel 8-bit image, row after row; the
  array's \<open>size\<close> is its number of elements.
\<close>

type_synonym pixel = "8 word \<times> 8 word \<times> 8 word"

type_synonym frame = "pixel list"

definition frame_size :: "frame \<Rightarrow> nat" where
  "frame_size f = 3 * length f"

text \<open>
  Modelled from the spec: \<open>cv2.cvtColor(frame, cv2.COLOR_RGB2BGR)\<close> belongs to the
  OpenCV library, not to this module; it reorders each pixel from the tuned sensor's
  channel order to the direct device's, that is, it exchanges the first and the third
  channel.
\<close>

definition cvtColor_RGB2BGR :: "frame \<Rightarrow> frame" where
  "cvtColor_RGB2BGR f = map (\<lambda>(c0, c1, c2). (c2, c1, c0)) f"

subsection \<open>Handles, globals, the outside world\<close>

text \<open>
  A \<open>cv2.VideoCapture\<close> object: its identity and what \<open>isOpened()\<close> answers. A
  \<open>Picamera2\<close> object: its identity; the module never asks it for its state.
\<close>

record video_capture =
  cap_id :: nat
  cap_opened :: bool

datatype picamera2 = Picamera2 (cam_id: nat)

text \<open>\<open>VideoCapture.release()\<close>: afterwards \<open>isOpened()\<close> answers False.\<close>

definition release :: "video_capture \<Rightarrow> video_capture" where
  "release h = h\<lparr>cap_opened := False\<rparr>"

record cam_state =
  CAMERA_SOURCE :: string
  opencv_camera :: "video_capture option"
  libcamera_camera :: "picamera2 option"

text \<open>
  What the libraries answer. \<open>cv2.VideoCapture(OPENCV_DEVICE)\<close> raises or returns
  a capture. The body of \<open>init_libcamera\<close> fails at the import, or at
  \<open>load_tuning_file\<close> or the constructor (no object yet), or at
  \<open>create_preview_configuration\<close> or \<open>configure\<close>, or at \<open>start\<close>, or it runs
  through. \<open>read()\<close> raises or returns a flag and a frame; \<open>capture_array()\<close> raises or
  returns a frame or \<open>None\<close>; \<open>cv2.imencode\<close> raises or returns a flag and the
  encoded bytes.
\<close>

datatype exn = ImportError | Exception

datatype opencv_open =
    VideoCapture_raises
  | VideoCapture_returns video_capture

datatype libcamera_open =
    Import_raises
  | Construct_raises
  | Configure_raises picamera2
  | Start_raises picamera2
  | Started picamera2

record world =
  VideoCapture_answer :: opencv_open
  Picamera2_answer :: libcamera_open
  read_answer :: "exn + (bool \<times> frame option)"
  capture_array_answer :: "exn + frame option"
  imencode_answer :: "exn + (bool \<times> string)"

text \<open>
  The calls that acquire, start, read or close a device, with the identity of the
  handle they are made on; a sleep, in milliseconds; a chunk the generator yields.
\<close>

datatype effect =
    Cv_VideoCapture nat
  | Cv_read nat
  | Cv_release nat
  | Lc_Picamera2 nat
  | Lc_configure nat
  | Lc_start nat
  | Lc_capture_array nat
  | Lc_close nat
  | Sleep nat
  | Yield string

subsection \<open>Opening a camera\<close>

text \<open>
  \<open>init_opencv_camera\<close> (lines 30 to 42) assigns the global as soon as the
  constructor returns, before it asks \<open>isOpened()\<close>; an exception of the constructor
  is caught and leaves the global as it was.
\<close>

definition init_opencv_camera :: "world \<Rightarrow> cam_state \<Rightarrow> bool \<times> cam_state \<times> effect list" where
  "init_opencv_camera w s =
     (case VideoCapture_answer w of
        VideoCapture_raises \<Rightarrow> (False, s, [])
      | VideoCapture_returns h \<Rightarrow>
          (let s' = s\<lparr>opencv_camera := Some h\<rparr> in
           if \<not> cap_opened h then (False, s', [Cv_VideoCapture (cap_id h)])
           else (True, s', [Cv_VideoCapture (cap_id h)])))"

text \<open>
  \<open>init_libcamera\<close> (lines 44 to 77): the import, then \<open>load_tuning_file\<close> and the constructor (whose
  result is assigned to the global at once), then \<open>create_preview_configuration\<close> and
  \<open>configure\<close>, then \<open>start\<close>, then two seconds of sleep. Any exception on the way
  is caught and the function returns False. The contents of the configuration are not
  modelled.
\<close>

definition init_libcamera :: "world \<Rightarrow> cam_state \<Rightarrow> bool \<times> cam_state \<times> effect list" where
  "init_libcamera w s =
     (case Picamera2_answer w of
        Import_raises \<Rightarrow> (False, s, [])
      | Construct_raises \<Rightarrow> (False, s, [])
      | Configure_raises h \<Rightarrow>
          (False, s\<lparr>libcamera_camera := Some h\<rparr>, [Lc_Picamera2 (cam_id h)])
      | Start_raises h \<Rightarrow>
          (False, s\<lparr>libcamera_camera := Some h\<rparr>,
           [Lc_Picamera2 (cam_id h), Lc_configure (cam_id h)])
      | Started h \<Rightarrow>
          (True, s\<lparr>libcamera_camera := Some h\<rparr>,
           [Lc_Picamera2 (cam_id h), Lc_configure (cam_id h), Lc_start (cam_id h),
            Sleep 2000]))"

subsection \<open>Reading a frame\<close>

text \<open>
  \<open>get_frame_opencv\<close> (lines 79 to 89) guards on \<open>None\<close> only; an exception of
  \<open>read()\<close> is not caught. \<open>get_frame_libcamera\<close> (lines 91 to 108) catches every
  exception of the capture and returns \<open>None\<close>. \<open>get_frame\<close> (lines 110 to 115) takes
  the sensor when the label is \<open>libcamera\<close> in any letter case and the webcam
  otherwise.
\<close>

definition get_frame_opencv :: "world \<Rightarrow> cam_state \<Rightarrow> (exn + frame option) \<times> effect list" where
  "get_frame_opencv w s =
     (case opencv_camera s of
        None \<Rightarrow> (Inr None, [])
      | Some h \<Rightarrow>
          (case read_answer w of
             Inl e \<Rightarrow> (Inl e, [Cv_read (cap_id h)])
           | Inr (success, frame) \<Rightarrow>
               if \<not> success then (Inr None, [Cv_read (cap_id h)])
               else (Inr frame, [Cv_read (cap_id h)])))"

definition get_frame_libcamera :: "world \<Rightarrow> cam_state \<Rightarrow> (exn + frame option) \<times> effect list" where
  "get_frame_libcamera w s =
     (case libcamera_camera s of
        None \<Rightarrow> (Inr None, [])
      | Some h \<Rightarrow>
          (case capture_array_answer w of
             Inl e \<Rightarrow> (Inr None, [Lc_capture_array (cam_id h)])
           | Inr None \<Rightarrow> (Inr None, [Lc_capture_array (cam_id h)])
           | Inr (Some frame) \<Rightarrow>
               if frame_size frame = 0 then (Inr None, [Lc_capture_array (cam_id h)])
               else (Inr (Some (cvtColor_RGB2BGR frame)), [Lc_capture_array (cam_id h)])))"

definition get_frame :: "world \<Rightarrow> cam_state \<Rightarrow> (exn + frame option) \<times> effect list" where
  "get_frame w s =
     (if lower (CAMERA_SOURCE s) = ''libcamera'' then get_frame_libcamera w s
      else get_frame_opencv w s)"

subsection \<open>The stream generator\<close>

text \<open>
  The bytes literal in front of the payload, and the backoff of \<open>time.sleep(0.1)\<close> in
  milliseconds.
\<close>

definition part_header :: string where
  "part_header = ''--frame'' @ CRLF @ ''Content-Type: image/jpeg'' @ CRLF @ CRLF"

definition backoff :: nat where
  "backoff = 100"

text \<open>
  One turn of the \<open>while True\<close> loop of \<open>gen_frames\<close> (lines 117 to 142), on the globals and the answers of the world at
  that moment. \<open>get_frame()\<close> is called outside the \<open>try\<close>, so its exception leaves
  the generator; everything else ends in a sleep or in one \<open>yield\<close>.
\<close>

definition gen_frames_body :: "cam_state \<times> world \<Rightarrow> (exn + unit) \<times> effect list" where
  "gen_frames_body sw =
     (case get_frame (snd sw) (fst sw) of
        (Inl e, cs) \<Rightarrow> (Inl e, cs)
      | (Inr None, cs) \<Rightarrow> (Inr (), cs @ [Sleep backoff])
      | (Inr (Some frame), cs) \<Rightarrow>
          (case imencode_answer (snd sw) of
             Inl e \<Rightarrow> (Inr (), cs @ [Sleep backoff])
           | Inr (ret, buffer) \<Rightarrow>
               if \<not> ret then (Inr (), cs @ [Sleep backoff])
               else (Inr (), cs @ [Yield (part_header @ buffer @ CRLF)])))"

datatype gen_status = Running | Stopped exn

text \<open>
  The loop has no exit of its own. It is run here over the turns the consumer drives
  it through, one entry of the list for each; after the last one it is still
  \<open>Running\<close>, unless an exception has left it.
\<close>

fun gen_frames :: "(cam_state \<times> world) list \<Rightarrow> gen_status \<times> effect list" where
  "gen_frames [] = (Running, [])"
| "gen_frames (sw # rest) =
     (case gen_frames_body sw of
        (Inl e, cs) \<Rightarrow> (Stopped e, cs)
      | (Inr u, cs) \<Rightarrow> (case gen_frames rest of (st, ds) \<Rightarrow> (st, cs @ ds)))"

subsection \<open>Startup, shutdown, health, switch\<close>

text \<open>
  \<open>startup_event\<close> (lines 144 to 156) opens the labelled kind and, when the label is
  \<open>libcamera\<close> and that open fails, the webcam; it does not assign to the label.
  \<open>shutdown_event\<close> (lines 158 to 169) releases and closes whatever is stored and
  assigns to no global. \<open>health_check\<close> (lines 181 to 194) tests the label against
  both kinds and reports no working camera for any other label.
\<close>

definition startup_event :: "world \<Rightarrow> cam_state \<Rightarrow> cam_state \<times> effect list" where
  "startup_event w s =
     (if lower (CAMERA_SOURCE s) = ''libcamera'' then
        (case init_libcamera w s of
           (ok, s1, c1) \<Rightarrow>
             if \<not> ok then
               (case init_opencv_camera w s1 of (ok2, s2, c2) \<Rightarrow> (s2, c1 @ c2))
             else (s1, c1))
      else
        (case init_opencv_camera w s of (ok, s1, c1) \<Rightarrow> (s1, c1)))"

definition shutdown_event :: "cam_state \<Rightarrow> cam_state \<times> effect list" where
  "shutdown_event s =
     (case (case opencv_camera s of
              None \<Rightarrow> (s, [])
            | Some h \<Rightarrow> (s\<lparr>opencv_camera := Some (release h)\<rparr>, [Cv_release (cap_id h)])) of
        (s1, c1) \<Rightarrow>
          (case libcamera_camera s1 of
             None \<Rightarrow> (s1, c1)
           | Some h \<Rightarrow> (s1, c1 @ [Lc_close (cam_id h)])))"

record health =
  status :: string
  camera_source :: string
  camera_working :: bool

definition health_check :: "cam_state \<Rightarrow> health" where
  "health_check s =
     (let camera_working =
            (if lower (CAMERA_SOURCE s) = ''opencv'' then
               (case opencv_camera s of None \<Rightarrow> False | Some h \<Rightarrow> cap_opened h)
             else if lower (CAMERA_SOURCE s) = ''libcamera'' then
               libcamera_camera s \<noteq> None
             else False)
      in \<lparr>status = (if camera_working then ''healthy'' else ''unhealthy''),
          camera_source = CAMERA_SOURCE s,
          camera_working = camera_working\<rparr>)"

text \<open>
  \<open>switch_camera\<close> (lines 230 to 261): the validation, the clean-up of the handle
  of the kind the label names, the assignment of the label, the open of the new kind,
  the response. Its two shapes of response are the error and the report of message,
  success and label.
\<close>

datatype response =
    Error_response string
  | Switch_response string bool string

definition invalid_source_message :: string where
  "invalid_source_message =
     ''Invalid camera source. Use '' @ [CHR 0x27] @ ''opencv'' @ [CHR 0x27] @ '' or ''
       @ [CHR 0x27] @ ''libcamera'' @ [CHR 0x27]"

definition switch_camera :: "string \<Rightarrow> world \<Rightarrow> cam_state \<Rightarrow> response \<times> cam_state \<times> effect list" where
  "switch_camera source w s =
     (if lower source \<notin> set [''opencv'', ''libcamera''] then
        (Error_response invalid_source_message, s, [])
      else
        (case (if lower (CAMERA_SOURCE s) = ''opencv'' \<and> opencv_camera s \<noteq> None then
                 (case opencv_camera s of
                    Some h \<Rightarrow> (s\<lparr>opencv_camera := Some (release h)\<rparr>, [Cv_release (cap_id h)])
                  | None \<Rightarrow> (s, []))
               else if lower (CAMERA_SOURCE s) = ''libcamera'' \<and> libcamera_camera s \<noteq> None then
                 (case libcamera_camera s of
                    Some g \<Rightarrow> (s, [Lc_close (cam_id g)])
                  | None \<Rightarrow> (s, []))
               else (s, [])) of
           (s1, c1) \<Rightarrow>
             (let s2 = s1\<lparr>CAMERA_SOURCE := lower source\<rparr> in
              (case (if CAMERA_SOURCE s2 = ''libcamera'' then init_libcamera w s2
                     else init_opencv_camera w s2) of
                 (success, s3, c3) \<Rightarrow>
                   (Switch_response (''Switched to '' @ CAMERA_SOURCE s3 @ '' camera'')
                      success (CAMERA_SOURCE s3),
                    s3, c1 @ c3)))))"

subsection \<open>Reading the effects and the globals\<close>

text \<open>The chunks a run has yielded, and the delays it has slept, each in order.\<close>

fun chunks :: "effect list \<Rightarrow> string list" where
  "chunks [] = []"
| "chunks (Yield c # es) = c # chunks es"
| "chunks (e # es) = chunks es"

fun sleeps :: "effect list \<Rightarrow> nat list" where
  "sleeps [] = []"
| "sleeps (Sleep d # es) = d # sleeps es"
| "sleeps (e # es) = sleeps es"

datatype kind = Opencv | Libcamera

datatype handle = Cv_handle video_capture | Lc_handle picamera2

text \<open>
  The backend \<open>get_frame\<close> reads from: the tuned sensor when the label is
  \<open>libcamera\<close> in any letter case, the direct device for every other label; and the
  handle stored for it, if any.
\<close>

definition kind_of :: "string \<Rightarrow> kind" where
  "kind_of label = (if lower label = ''libcamera'' then Libcamera else Opencv)"

definition active_backend :: "cam_state \<Rightarrow> (kind \<times> handle) option" where
  "active_backend s =
     (case kind_of (CAMERA_SOURCE s) of
        Libcamera \<Rightarrow> map_option (\<lambda>h. (Libcamera, Lc_handle h)) (libcamera_camera s)
      | Opencv \<Rightarrow> map_option (\<lambda>h. (Opencv, Cv_handle h)) (opencv_camera s))"

text \<open>
  The handle \<open>switch_camera\<close> closes first: the one stored for the kind the label
  names, and none when the label names neither kind.
\<close>

definition labelled_handle :: "cam_state \<Rightarrow> handle option" where
  "labelled_handle s =
     (if lower (CAMERA_SOURCE s) = ''opencv'' then map_option Cv_handle (opencv_camera s)
      else if lower (CAMERA_SOURCE s) = ''libcamera'' then map_option Lc_handle (libcamera_camera s)
      else None)"

definition cleaned :: "cam_state \<Rightarrow> cam_state" where
  "cleaned s =
     (if lower (CAMERA_SOURCE s) = ''opencv''
      then (case opencv_camera s of
              None \<Rightarrow> s
            | Some h \<Rightarrow> s\<lparr>opencv_camera := Some (release h)\<rparr>)
      else s)"

text \<open>
  An open of a kind succeeds in a world when the library hands out a working handle:
  a capture that reports opened, or a sensor that was configured and started.
\<close>

definition opened_by :: "kind \<Rightarrow> world \<Rightarrow> handle option" where
  "opened_by k w =
     (case k of
        Opencv \<Rightarrow>
          (case VideoCapture_answer w of
             VideoCapture_returns h \<Rightarrow> if cap_opened h then Some (Cv_handle h) else None
           | VideoCapture_raises \<Rightarrow> None)
      | Libcamera \<Rightarrow>
          (case Picamera2_answer w of
             Started h \<Rightarrow> Some (Lc_handle h)
           | Import_raises \<Rightarrow> None
           | Construct_raises \<Rightarrow> None
           | Configure_raises h \<Rightarrow> None
           | Start_raises h \<Rightarrow> None))"

definition open_effects :: "kind \<Rightarrow> world \<Rightarrow> effect list" where
  "open_effects k w =
     (case k of
        Opencv \<Rightarrow>
          (case VideoCapture_answer w of
             VideoCapture_raises \<Rightarrow> []
           | VideoCapture_returns h \<Rightarrow> [Cv_VideoCapture (cap_id h)])
      | Libcamera \<Rightarrow>
          (case Picamera2_answer w of
             Import_raises \<Rightarrow> []
           | Construct_raises \<Rightarrow> []
           | Configure_raises h \<Rightarrow> [Lc_Picamera2 (cam_id h)]
           | Start_raises h \<Rightarrow> [Lc_Picamera2 (cam_id h), Lc_configure (cam_id h)]
           | Started h \<Rightarrow>
               [Lc_Picamera2 (cam_id h), Lc_configure (cam_id h), Lc_start (cam_id h),
                Sleep 2000]))"

fun close_effect :: "handle \<Rightarrow> effect" where
  "close_effect (Cv_handle h) = Cv_release (cap_id h)"
| "close_effect (Lc_handle g) = Lc_close (cam_id g)"

fun closed :: "handle \<Rightarrow> handle" where
  "closed (Cv_handle h) = Cv_handle (release h)"
| "closed (Lc_handle g) = Lc_handle g"

subsection \<open>Example states and worlds\<close>

text \<open>
  The globals right after the module is loaded with a given \<open>CAMERA_SOURCE\<close>; a
  world in which nothing works; one with a working webcam and no picamera2; one whose
  devices are absent; one with a working sensor; and a state with an open webcam
  under a label that names neither kind.
\<close>

definition fresh :: "string \<Rightarrow> cam_state" where
  "fresh label = \<lparr>CAMERA_SOURCE = label, opencv_camera = None, libcamera_camera = None\<rparr>"

definition quiet_world :: world where
  "quiet_world =
     \<lparr>VideoCapture_answer = VideoCapture_raises, Picamera2_answer = Import_raises,
      read_answer = Inr (False, None), capture_array_answer = Inr None,
      imencode_answer = Inr (False, [])\<rparr>"

definition webcam_only_world :: world where
  "webcam_only_world =
     quiet_world\<lparr>VideoCapture_answer := VideoCapture_returns \<lparr>cap_id = 1, cap_opened = True\<rparr>,
                 read_answer := Inr (True, Some [(1, 2, 3)]),
                 imencode_answer := Inr (True, ''JPEG'')\<rparr>"

definition no_device_world :: world where
  "no_device_world =
     quiet_world\<lparr>VideoCapture_answer := VideoCapture_returns \<lparr>cap_id = 2, cap_opened = False\<rparr>,
                 Picamera2_answer := Start_raises (Picamera2 3)\<rparr>"

definition sensor_world :: "nat \<Rightarrow> world" where
  "sensor_world n =
     quiet_world\<lparr>Picamera2_answer := Started (Picamera2 n),
                 capture_array_answer := Inr (Some [(1, 2, 3), (4, 5, 6)])\<rparr>"

definition usb_state :: cam_state where
  "usb_state = (fresh ''usb'')\<lparr>opencv_camera := Some \<lparr>cap_id = 1, cap_opened = True\<rparr>\<rparr>"

definition sensor_state :: cam_state where
  "sensor_state = (fresh ''libcamera'')\<lparr>libcamera_camera := Some (Picamera2 1)\<rparr>"

definition failing_turns :: "(cam_state \<times> world) list" where
  "failing_turns =
     [(fresh ''opencv'', webcam_only_world),
      (usb_state, quiet_world),
      ((fresh ''LibCamera'')\<lparr>libcamera_camera := Some (Picamera2 3)\<rparr>,
       quiet_world\<lparr>capture_array_answer := Inl Exception\<rparr>)]"

section \<open>Properties\<close>

subsection \<open>Auxiliary facts\<close>

lemma lower_idem: "lower (lower x) = lower x"
proof -
  have "\<And>c. lower_char (lower_char c) = lower_char c"
    by (simp add: lower_char_def Let_def)
  then show ?thesis by (simp add: lower_def)
qed

lemma lower_opencv: "lower ''opencv'' = ''opencv''"
  by code_simp

lemma lower_libcamera: "lower ''libcamera'' = ''libcamera''"
  by code_simp

lemma chunks_append: "chunks (xs @ ys) = chunks xs @ chunks ys"
  by (induction xs rule: chunks.induct) simp_all

lemma sleeps_append: "sleeps (xs @ ys) = sleeps xs @ sleeps ys"
  by (induction xs rule: sleeps.induct) simp_all

lemma get_frame_opencv_effects:
  "chunks (snd (get_frame_opencv w s)) = [] \<and> sleeps (snd (get_frame_opencv w s)) = []"
  by (simp add: get_frame_opencv_def split: option.splits sum.splits prod.splits)

lemma get_frame_libcamera_effects:
  "chunks (snd (get_frame_libcamera w s)) = [] \<and> sleeps (snd (get_frame_libcamera w s)) = []"
  by (simp add: get_frame_libcamera_def split: option.splits sum.splits prod.splits)

lemma get_frame_effects:
  "chunks (snd (get_frame w s)) = [] \<and> sleeps (snd (get_frame w s)) = []"
  by (simp add: get_frame_def get_frame_opencv_effects get_frame_libcamera_effects)

lemma gen_frames_body_no_frame:
  assumes "fst (get_frame w s) = Inr None"
  shows "fst (gen_frames_body (s, w)) = Inr ()"
    and "chunks (snd (gen_frames_body (s, w))) = []"
    and "sleeps (snd (gen_frames_body (s, w))) = [backoff]"
proof -
  obtain cs where g: "get_frame w s = (Inr None, cs)"
    using assms by (cases "get_frame w s") simp
  have e: "chunks cs = [] \<and> sleeps cs = []"
    using get_frame_effects [of w s] g by simp
  show "fst (gen_frames_body (s, w)) = Inr ()"
    by (simp add: gen_frames_body_def g)
  show "chunks (snd (gen_frames_body (s, w))) = []"
    by (simp add: gen_frames_body_def g chunks_append e)
  show "sleeps (snd (gen_frames_body (s, w))) = [backoff]"
    by (simp add: gen_frames_body_def g sleeps_append e)
qed

lemma init_opencv_camera_label:
  "CAMERA_SOURCE (fst (snd (init_opencv_camera w s))) = CAMERA_SOURCE s"
  by (simp add: init_opencv_camera_def Let_def split: opencv_open.splits)

lemma init_libcamera_label:
  "CAMERA_SOURCE (fst (snd (init_libcamera w s))) = CAMERA_SOURCE s"
  by (simp add: init_libcamera_def split: libcamera_open.splits)

lemma init_opencv_camera_success:
  "fst (init_opencv_camera w s) = (opened_by Opencv w \<noteq> None)"
  by (simp add: init_opencv_camera_def opened_by_def Let_def split: opencv_open.splits)

lemma init_libcamera_success:
  "fst (init_libcamera w s) = (opened_by Libcamera w \<noteq> None)"
  by (simp add: init_libcamera_def opened_by_def split: libcamera_open.splits)

lemma init_opencv_camera_opened:
  "opened_by Opencv w = Some h \<Longrightarrow>
   \<exists>c. h = Cv_handle c \<and> opencv_camera (fst (snd (init_opencv_camera w s))) = Some c"
  by (auto simp add: init_opencv_camera_def opened_by_def Let_def
        split: opencv_open.splits if_splits)

lemma init_libcamera_opened:
  "opened_by Libcamera w = Some h \<Longrightarrow>
   \<exists>c. h = Lc_handle c \<and> libcamera_camera (fst (snd (init_libcamera w s))) = Some c"
  by (auto simp add: init_libcamera_def opened_by_def split: libcamera_open.splits)

lemma init_opencv_open_effects: "snd (snd (init_opencv_camera w s)) = open_effects Opencv w"
  by (simp add: init_opencv_camera_def open_effects_def Let_def split: opencv_open.splits)

lemma init_libcamera_open_effects: "snd (snd (init_libcamera w s)) = open_effects Libcamera w"
  by (simp add: init_libcamera_def open_effects_def split: libcamera_open.splits)

lemma opened_by_Opencv_opened:
  "opened_by Opencv w = Some h \<Longrightarrow> \<exists>c. h = Cv_handle c \<and> cap_opened c"
  by (auto simp add: opened_by_def split: opencv_open.splits if_splits)

lemma opened_by_Libcamera_handle:
  "opened_by Libcamera w = Some h \<Longrightarrow> \<exists>g. h = Lc_handle g"
  by (auto simp add: opened_by_def split: libcamera_open.splits)

lemma active_backend_opencv:
  "active_backend s = Some (Opencv, Cv_handle c) \<Longrightarrow>
   lower (CAMERA_SOURCE s) \<noteq> ''libcamera'' \<and> opencv_camera s = Some c"
  by (auto simp add: active_backend_def kind_of_def split: if_splits)

lemma active_backend_libcamera:
  "active_backend s = Some (Libcamera, Lc_handle g) \<Longrightarrow>
   lower (CAMERA_SOURCE s) = ''libcamera'' \<and> libcamera_camera s = Some g"
  by (auto simp add: active_backend_def kind_of_def split: if_splits)

lemma active_after_init_opencv:
  assumes "CAMERA_SOURCE s = ''opencv''" and "opened_by Opencv w = Some h"
  shows "active_backend (fst (snd (init_opencv_camera w s))) = Some (Opencv, h)"
proof -
  obtain c where c: "h = Cv_handle c"
      "opencv_camera (fst (snd (init_opencv_camera w s))) = Some c"
    using init_opencv_camera_opened [OF assms(2), of s] by blast
  have "kind_of (CAMERA_SOURCE (fst (snd (init_opencv_camera w s)))) = Opencv"
    by (simp add: init_opencv_camera_label assms(1) kind_of_def lower_opencv)
  then show ?thesis by (simp add: active_backend_def c)
qed

lemma active_after_init_libcamera:
  assumes "CAMERA_SOURCE s = ''libcamera''" and "opened_by Libcamera w = Some h"
  shows "active_backend (fst (snd (init_libcamera w s))) = Some (Libcamera, h)"
proof -
  obtain c where c: "h = Lc_handle c"
      "libcamera_camera (fst (snd (init_libcamera w s))) = Some c"
    using init_libcamera_opened [OF assms(2), of s] by blast
  have "kind_of (CAMERA_SOURCE (fst (snd (init_libcamera w s)))) = Libcamera"
    by (simp add: init_libcamera_label assms(1) kind_of_def lower_libcamera)
  then show ?thesis by (simp add: active_backend_def c)
qed

text \<open>
  With a valid source, \<open>switch_camera\<close> is the clean-up of the labelled handle
  followed by the open of the requested kind under the new label.
\<close>

lemma switch_camera_unfold:
  assumes "lower source = ''opencv'' \<or> lower source = ''libcamera''"
  shows "switch_camera source w s =
     (case (if lower source = ''libcamera''
            then init_libcamera w ((cleaned s)\<lparr>CAMERA_SOURCE := lower source\<rparr>)
            else init_opencv_camera w ((cleaned s)\<lparr>CAMERA_SOURCE := lower source\<rparr>)) of
        (success, s3, c3) \<Rightarrow>
          (Switch_response (''Switched to '' @ CAMERA_SOURCE s3 @ '' camera'') success
             (CAMERA_SOURCE s3),
           s3,
           (case labelled_handle s of None \<Rightarrow> [] | Some h \<Rightarrow> [close_effect h]) @ c3))"
  using assms
  by (cases "opencv_camera s"; cases "libcamera_camera s")
     (auto simp add: switch_camera_def cleaned_def labelled_handle_def Let_def)

lemma switch_camera_opencv:
  assumes "lower source = ''opencv''"
  shows "switch_camera source w s =
     (Switch_response ''Switched to opencv camera'' (opened_by Opencv w \<noteq> None) ''opencv'',
      fst (snd (init_opencv_camera w ((cleaned s)\<lparr>CAMERA_SOURCE := ''opencv''\<rparr>))),
      (case labelled_handle s of None \<Rightarrow> [] | Some h \<Rightarrow> [close_effect h])
        @ open_effects Opencv w)"
proof -
  let ?t = "(cleaned s)\<lparr>CAMERA_SOURCE := ''opencv''\<rparr>"
  obtain ok s3 c3 where i: "init_opencv_camera w ?t = (ok, s3, c3)"
    by (cases "init_opencv_camera w ?t")
  have ok: "ok = (opened_by Opencv w \<noteq> None)"
    using init_opencv_camera_success [of w ?t] i by simp
  have lab: "CAMERA_SOURCE s3 = ''opencv''"
    using init_opencv_camera_label [of w ?t] i by simp
  have eff: "c3 = open_effects Opencv w"
    using init_opencv_open_effects [of w ?t] i by simp
  show ?thesis
    using assms by (simp add: switch_camera_unfold i ok lab eff)
qed

lemma switch_camera_libcamera:
  assumes "lower source = ''libcamera''"
  shows "switch_camera source w s =
     (Switch_response ''Switched to libcamera camera'' (opened_by Libcamera w \<noteq> None)
        ''libcamera'',
      fst (snd (init_libcamera w ((cleaned s)\<lparr>CAMERA_SOURCE := ''libcamera''\<rparr>))),
      (case labelled_handle s of None \<Rightarrow> [] | Some h \<Rightarrow> [close_effect h])
        @ open_effects Libcamera w)"
proof -
  let ?t = "(cleaned s)\<lparr>CAMERA_SOURCE := ''libcamera''\<rparr>"
  obtain ok s3 c3 where i: "init_libcamera w ?t = (ok, s3, c3)"
    by (cases "init_libcamera w ?t")
  have ok: "ok = (opened_by Libcamera w \<noteq> None)"
    using init_libcamera_success [of w ?t] i by simp
  have lab: "CAMERA_SOURCE s3 = ''libcamera''"
    using init_libcamera_label [of w ?t] i by simp
  have eff: "c3 = open_effects Libcamera w"
    using init_libcamera_open_effects [of w ?t] i by simp
  show ?thesis
    using assms by (simp add: switch_camera_unfold i ok lab eff)
qed

lemma switch_camera_summary:
  assumes "lower source = ''opencv'' \<or> lower source = ''libcamera''"
  shows "fst (switch_camera source w s) =
           Switch_response (''Switched to '' @ lower source @ '' camera'')
             (opened_by (kind_of source) w \<noteq> None) (lower source)
       \<and> CAMERA_SOURCE (fst (snd (switch_camera source w s))) = lower source
       \<and> snd (snd (switch_camera source w s)) =
           (case labelled_handle s of None \<Rightarrow> [] | Some h \<Rightarrow> [close_effect h])
             @ open_effects (kind_of source) w
       \<and> (\<forall>h. opened_by (kind_of source) w = Some h \<longrightarrow>
             active_backend (fst (snd (switch_camera source w s))) = Some (kind_of source, h))"
proof (cases "lower source = ''libcamera''")
  case True
  let ?t = "(cleaned s)\<lparr>CAMERA_SOURCE := ''libcamera''\<rparr>"
  have k: "kind_of source = Libcamera" by (simp add: kind_of_def True)
  have lab: "CAMERA_SOURCE (fst (snd (init_libcamera w ?t))) = ''libcamera''"
    by (simp add: init_libcamera_label)
  have act: "\<forall>h. opened_by Libcamera w = Some h \<longrightarrow>
      active_backend (fst (snd (init_libcamera w ?t))) = Some (Libcamera, h)"
    using active_after_init_libcamera [of ?t w] by simp
  show ?thesis
    using act by (simp add: switch_camera_libcamera [OF True] k True lab)
next
  case False
  then have o: "lower source = ''opencv''" using assms by simp
  let ?t = "(cleaned s)\<lparr>CAMERA_SOURCE := ''opencv''\<rparr>"
  have k: "kind_of source = Opencv" by (simp add: kind_of_def o)
  have lab: "CAMERA_SOURCE (fst (snd (init_opencv_camera w ?t))) = ''opencv''"
    by (simp add: init_opencv_camera_label)
  have act: "\<forall>h. opened_by Opencv w = Some h \<longrightarrow>
      active_backend (fst (snd (init_opencv_camera w ?t))) = Some (Opencv, h)"
    using active_after_init_opencv [of ?t w] by simp
  show ?thesis
    using act by (simp add: switch_camera_opencv [OF o] k o lab)
qed

lemma labelled_handle_after_switch:
  assumes "lower source = ''opencv'' \<or> lower source = ''libcamera''"
      and "opened_by (kind_of source) w = Some h"
  shows "labelled_handle (fst (snd (switch_camera source w s))) = Some h"
proof -
  let ?s1 = "fst (snd (switch_camera source w s))"
  note sw = switch_camera_summary [OF assms(1), of w s]
  have a: "active_backend ?s1 = Some (kind_of source, h)" using sw assms(2) by simp
  have l: "CAMERA_SOURCE ?s1 = lower source" using sw by simp
  show ?thesis
  proof (cases "lower source = ''libcamera''")
    case True
    then have k: "kind_of source = Libcamera" by (simp add: kind_of_def)
    obtain g where g: "h = Lc_handle g"
      using opened_by_Libcamera_handle assms(2) k by auto
    have "libcamera_camera ?s1 = Some g"
      using active_backend_libcamera a k g by simp
    then show ?thesis by (simp add: labelled_handle_def l True lower_libcamera g)
  next
    case False
    then have o: "lower source = ''opencv''" using assms(1) by simp
    have k: "kind_of source = Opencv" by (simp add: kind_of_def False)
    obtain c where c: "h = Cv_handle c"
      using opened_by_Opencv_opened assms(2) k by auto
    have "opencv_camera ?s1 = Some c"
      using active_backend_opencv a k c by simp
    then show ?thesis by (simp add: labelled_handle_def l o lower_opencv c)
  qed
qed

lemma health_check_after_switch:
  assumes "lower source = ''opencv'' \<or> lower source = ''libcamera''"
      and "opened_by (kind_of source) w = Some h"
  shows "health_check (fst (snd (switch_camera source w s))) =
           \<lparr>status = ''healthy'', camera_source = lower source, camera_working = True\<rparr>"
proof -
  let ?s1 = "fst (snd (switch_camera source w s))"
  note sw = switch_camera_summary [OF assms(1), of w s]
  have a: "active_backend ?s1 = Some (kind_of source, h)" using sw assms(2) by simp
  have l: "CAMERA_SOURCE ?s1 = lower source" using sw by simp
  show ?thesis
  proof (cases "lower source = ''libcamera''")
    case True
    then have k: "kind_of source = Libcamera" by (simp add: kind_of_def)
    obtain g where g: "h = Lc_handle g"
      using opened_by_Libcamera_handle assms(2) k by auto
    have "libcamera_camera ?s1 = Some g"
      using active_backend_libcamera a k g by simp
    then show ?thesis by (simp add: health_check_def Let_def l True lower_libcamera)
  next
    case False
    then have o: "lower source = ''opencv''" using assms(1) by simp
    have k: "kind_of source = Opencv" by (simp add: kind_of_def False)
    obtain c where c: "h = Cv_handle c" "cap_opened c"
      using opened_by_Opencv_opened assms(2) k by auto
    have "opencv_camera ?s1 = Some c"
      using active_backend_opencv a k c by simp
    then show ?thesis by (simp add: health_check_def Let_def l o lower_opencv c)
  qed
qed

subsection \<open>Frame retrieval after the startup fallback\<close>

text \<open>
  C1. \<open>get_frame\<close> reads from the backend the label names and answers \<open>None\<close> when no
  handle is stored for it. The startup fallback does not make the direct device that
  backend: with \<open>CAMERA_SOURCE\<close> set to \<open>libcamera\<close>, picamera2 missing and a working
  webcam, \<open>startup_event\<close> opens the webcam and leaves the label as it was, so
  \<open>get_frame\<close> still asks the tuned sensor, finds no handle and returns \<open>None\<close> without
  a read, while \<open>get_frame_opencv\<close> on the same globals would deliver the frame.
\<close>

theorem startup_fallback_serves_no_frame:
  "startup_event webcam_only_world (fresh ''libcamera'') =
     (\<lparr>CAMERA_SOURCE = ''libcamera'',
       opencv_camera = Some \<lparr>cap_id = 1, cap_opened = True\<rparr>,
       libcamera_camera = None\<rparr>,
      [Cv_VideoCapture 1])
 \<and> get_frame webcam_only_world (fst (startup_event webcam_only_world (fresh ''libcamera''))) =
     (Inr None, [])
 \<and> get_frame_opencv webcam_only_world
       (fst (startup_event webcam_only_world (fresh ''libcamera''))) =
     (Inr (Some [(1, 2, 3)]), [Cv_read 1])"
  by code_simp

subsection \<open>A handle that failed to open\<close>

text \<open>
  C2. A failed open leaves its handle in the global, and \<open>get_frame\<close> reads from it.
  With a webcam that does not report opened, \<open>init_opencv_camera\<close> returns False and
  \<open>opencv_camera\<close> holds the handle numbered 2; the next \<open>get_frame\<close> calls \<open>read\<close> on
  that handle. With a sensor whose \<open>start\<close> raises, \<open>init_libcamera\<close> returns False
  and \<open>libcamera_camera\<close> holds the handle numbered 3; the next \<open>get_frame\<close> calls
  \<open>capture_array\<close> on it.
\<close>

theorem failed_open_handle_is_read:
  "startup_event no_device_world (fresh ''opencv'') =
     (\<lparr>CAMERA_SOURCE = ''opencv'',
       opencv_camera = Some \<lparr>cap_id = 2, cap_opened = False\<rparr>,
       libcamera_camera = None\<rparr>,
      [Cv_VideoCapture 2])
 \<and> init_opencv_camera no_device_world (fresh ''opencv'') =
     (False, fst (startup_event no_device_world (fresh ''opencv'')), [Cv_VideoCapture 2])
 \<and> get_frame no_device_world (fst (startup_event no_device_world (fresh ''opencv''))) =
     (Inr None, [Cv_read 2])
 \<and> init_libcamera no_device_world (fresh ''libcamera'') =
     (False, (fresh ''libcamera'')\<lparr>libcamera_camera := Some (Picamera2 3)\<rparr>,
      [Lc_Picamera2 3, Lc_configure 3])
 \<and> get_frame no_device_world ((fresh ''libcamera'')\<lparr>libcamera_camera := Some (Picamera2 3)\<rparr>) =
     (Inr None, [Lc_capture_array 3])"
  by code_simp

subsection \<open>Switching to a known kind\<close>

text \<open>
  C3, as the claim states it, fails at two inputs. Under the label \<open>usb\<close> frames come
  from the open webcam numbered 1, and a switch to \<open>opencv\<close> whose open fails releases
  nothing: its only effect is the constructor call. Under the label \<open>opencv\<close> the
  same switch releases handle 1 first; in both runs the switch reports failure and the
  global then holds the handle numbered 2 that did not open, so the backend the label
  names is not empty.
\<close>

theorem switch_camera_known_kind_counterexample:
  "active_backend usb_state = Some (Opencv, Cv_handle \<lparr>cap_id = 1, cap_opened = True\<rparr>)
 \<and> switch_camera ''opencv'' no_device_world usb_state =
     (Switch_response ''Switched to opencv camera'' False ''opencv'',
      \<lparr>CAMERA_SOURCE = ''opencv'',
       opencv_camera = Some \<lparr>cap_id = 2, cap_opened = False\<rparr>,
       libcamera_camera = None\<rparr>,
      [Cv_VideoCapture 2])
 \<and> active_backend (fst (snd (switch_camera ''opencv'' no_device_world usb_state))) =
     Some (Opencv, Cv_handle \<lparr>cap_id = 2, cap_opened = False\<rparr>)
 \<and> snd (snd (switch_camera ''opencv'' no_device_world (usb_state\<lparr>CAMERA_SOURCE := ''opencv''\<rparr>))) =
     [Cv_release 1, Cv_VideoCapture 2]
 \<and> active_backend
       (fst (snd (switch_camera ''opencv'' no_device_world
                    (usb_state\<lparr>CAMERA_SOURCE := ''opencv''\<rparr>)))) =
     Some (Opencv, Cv_handle \<lparr>cap_id = 2, cap_opened = False\<rparr>)"
  by code_simp

text \<open>
  C3, amended. For every starting state and every requested source that is, in any
  letter case, one of the two known kinds, \<open>switch_camera\<close> first closes the handle
  stored for the kind the label names (the webcam only under the label \<open>opencv\<close>, the
  sensor only under \<open>libcamera\<close>, nothing under any other label), then sets the label
  to the requested kind in lower case and attempts the open of that kind and of no
  other. The response carries the new label and a success flag that is true exactly
  when the open succeeded; on success the backend \<open>get_frame\<close> reads from is the
  requested kind with the newly opened handle. On failure the label stays on the
  requested kind: nothing reverts to the prior backend.
\<close>

theorem switch_camera_valid_source:
  assumes "lower source = ''opencv'' \<or> lower source = ''libcamera''"
  shows "fst (switch_camera source w s) =
           Switch_response (''Switched to '' @ lower source @ '' camera'')
             (opened_by (kind_of source) w \<noteq> None) (lower source)
       \<and> CAMERA_SOURCE (fst (snd (switch_camera source w s))) = lower source
       \<and> snd (snd (switch_camera source w s)) =
           (case labelled_handle s of None \<Rightarrow> [] | Some h \<Rightarrow> [close_effect h])
             @ open_effects (kind_of source) w
       \<and> (\<forall>h. opened_by (kind_of source) w = Some h \<longrightarrow>
             active_backend (fst (snd (switch_camera source w s))) = Some (kind_of source, h))"
  using switch_camera_summary [OF assms] .

theorem switch_camera_valid_source_witness:
  "(lower ''LibCamera'' = ''opencv'' \<or> lower ''LibCamera'' = ''libcamera'')
 \<and> opened_by (kind_of ''LibCamera'') (sensor_world 4) = Some (Lc_handle (Picamera2 4))
 \<and> fst (switch_camera ''LibCamera'' (sensor_world 4) usb_state) =
     Switch_response (''Switched to '' @ lower ''LibCamera'' @ '' camera'')
       (opened_by (kind_of ''LibCamera'') (sensor_world 4) \<noteq> None) (lower ''LibCamera'')
 \<and> CAMERA_SOURCE (fst (snd (switch_camera ''LibCamera'' (sensor_world 4) usb_state))) =
     lower ''LibCamera''
 \<and> snd (snd (switch_camera ''LibCamera'' (sensor_world 4) usb_state)) =
     (case labelled_handle usb_state of None \<Rightarrow> [] | Some h \<Rightarrow> [close_effect h])
       @ open_effects (kind_of ''LibCamera'') (sensor_world 4)
 \<and> active_backend (fst (snd (switch_camera ''LibCamera'' (sensor_world 4) usb_state))) =
     Some (kind_of ''LibCamera'', Lc_handle (Picamera2 4))"
proof -
  have a: "lower ''LibCamera'' = ''opencv'' \<or> lower ''LibCamera'' = ''libcamera''"
    by code_simp
  have b: "opened_by (kind_of ''LibCamera'') (sensor_world 4) = Some (Lc_handle (Picamera2 4))"
    by code_simp
  show ?thesis
    using a b switch_camera_valid_source [OF a, of "sensor_world 4" usb_state] by simp
qed

subsection \<open>Shutdown\<close>

text \<open>
  C4, as the claim states it, fails: \<open>shutdown_event\<close> assigns to no global. From a
  started sensor under the label \<open>libcamera\<close> it closes the handle and leaves it in
  \<open>libcamera_camera\<close>, so the backend the label names still has its handle and the
  health check still reports a working camera; from an open webcam it leaves the
  released handle in \<open>opencv_camera\<close>.
\<close>

theorem shutdown_event_clears_counterexample:
  "shutdown_event ((fresh ''libcamera'')\<lparr>libcamera_camera := Some (Picamera2 1)\<rparr>) =
     ((fresh ''libcamera'')\<lparr>libcamera_camera := Some (Picamera2 1)\<rparr>, [Lc_close 1])
 \<and> active_backend
       (fst (shutdown_event ((fresh ''libcamera'')\<lparr>libcamera_camera := Some (Picamera2 1)\<rparr>))) =
     Some (Libcamera, Lc_handle (Picamera2 1))
 \<and> camera_working
       (health_check
          (fst (shutdown_event ((fresh ''libcamera'')\<lparr>libcamera_camera := Some (Picamera2 1)\<rparr>))))
 \<and> opencv_camera
       (fst (shutdown_event ((fresh ''opencv'')\<lparr>opencv_camera := Some \<lparr>cap_id = 1, cap_opened = True\<rparr>\<rparr>))) =
     Some \<lparr>cap_id = 1, cap_opened = False\<rparr>"
  by code_simp

text \<open>
  C4, amended. \<open>shutdown_event\<close> is safe to call when no handle is stored: it makes
  no call and changes nothing. From any state it releases the stored webcam handle
  and closes the stored sensor handle, whichever are stored, so the active handle is
  closed; it does not clear the Active Backend Reference: the label is unchanged and
  the globals keep the closed handles. Calling it twice in a row is safe: the second
  call closes the same handles again and leaves the state as the first call left it.
\<close>

theorem shutdown_event_keeps_handles:
  "(opencv_camera s = None \<and> libcamera_camera s = None \<longrightarrow> shutdown_event s = (s, []))
 \<and> snd (shutdown_event s) =
     (case opencv_camera s of None \<Rightarrow> [] | Some h \<Rightarrow> [Cv_release (cap_id h)])
       @ (case libcamera_camera s of None \<Rightarrow> [] | Some g \<Rightarrow> [Lc_close (cam_id g)])
 \<and> CAMERA_SOURCE (fst (shutdown_event s)) = CAMERA_SOURCE s
 \<and> opencv_camera (fst (shutdown_event s)) = map_option release (opencv_camera s)
 \<and> libcamera_camera (fst (shutdown_event s)) = libcamera_camera s
 \<and> (\<forall>k h. active_backend s = Some (k, h) \<longrightarrow>
        close_effect h \<in> set (snd (shutdown_event s))
      \<and> active_backend (fst (shutdown_event s)) = Some (k, closed h))
 \<and> shutdown_event (fst (shutdown_event s)) = (fst (shutdown_event s), snd (shutdown_event s))"
  by (cases "opencv_camera s"; cases "libcamera_camera s")
     (auto simp add: shutdown_event_def active_backend_def release_def split: kind.splits)

theorem shutdown_event_keeps_handles_witness:
  "opencv_camera (fresh ''opencv'') = None \<and> libcamera_camera (fresh ''opencv'') = None
 \<and> shutdown_event (fresh ''opencv'') = (fresh ''opencv'', [])
 \<and> active_backend usb_state = Some (Opencv, Cv_handle \<lparr>cap_id = 1, cap_opened = True\<rparr>)
 \<and> close_effect (Cv_handle \<lparr>cap_id = 1, cap_opened = True\<rparr>) \<in> set (snd (shutdown_event usb_state))
 \<and> active_backend (fst (shutdown_event usb_state)) =
     Some (Opencv, closed (Cv_handle \<lparr>cap_id = 1, cap_opened = True\<rparr>))
 \<and> shutdown_event (fst (shutdown_event usb_state)) =
     (fst (shutdown_event usb_state), snd (shutdown_event usb_state))"
proof -
  have a: "opencv_camera (fresh ''opencv'') = None \<and> libcamera_camera (fresh ''opencv'') = None"
    by code_simp
  have b: "active_backend usb_state = Some (Opencv, Cv_handle \<lparr>cap_id = 1, cap_opened = True\<rparr>)"
    by code_simp
  have c: "shutdown_event (fresh ''opencv'') = (fresh ''opencv'', [])"
    using a shutdown_event_keeps_handles [of "fresh ''opencv''"] by blast
  have d: "close_effect (Cv_handle \<lparr>cap_id = 1, cap_opened = True\<rparr>)
        \<in> set (snd (shutdown_event usb_state))
      \<and> active_backend (fst (shutdown_event usb_state)) =
          Some (Opencv, closed (Cv_handle \<lparr>cap_id = 1, cap_opened = True\<rparr>))"
    using b shutdown_event_keeps_handles [of usb_state] by blast
  have e: "shutdown_event (fst (shutdown_event usb_state)) =
      (fst (shutdown_event usb_state), snd (shutdown_event usb_state))"
    using shutdown_event_keeps_handles [of usb_state] by blast
  show ?thesis
    using a b c d e by blast
qed

subsection \<open>Switching to an unknown source\<close>

text \<open>
  C5. For every requested source that, in lower case, is neither \<open>opencv\<close> nor
  \<open>libcamera\<close>, \<open>switch_camera\<close> returns the error response, makes no call on any
  camera and returns the globals as they were: the label and both handles are
  unchanged.
\<close>

theorem switch_camera_invalid_source:
  assumes "lower source \<noteq> ''opencv''" and "lower source \<noteq> ''libcamera''"
  shows "switch_camera source w s = (Error_response invalid_source_message, s, [])"
  using assms by (simp add: switch_camera_def)

theorem switch_camera_invalid_source_witness:
  "lower ''invalid'' \<noteq> ''opencv'' \<and> lower ''invalid'' \<noteq> ''libcamera''
 \<and> switch_camera ''invalid'' webcam_only_world usb_state =
     (Error_response invalid_source_message, usb_state, [])"
proof -
  have a: "lower ''invalid'' \<noteq> ''opencv''" by code_simp
  have b: "lower ''invalid'' \<noteq> ''libcamera''" by code_simp
  show ?thesis
    using a b switch_camera_invalid_source [OF a b, of webcam_only_world usb_state] by simp
qed

subsection \<open>The stream generator on a backend that never delivers\<close>

text \<open>
  C6. When every \<open>get_frame\<close> call of a run returns \<open>None\<close>, the generator, after any
  number of turns, is still running: it has raised nothing, has yielded no chunk, and
  has slept the fixed backoff once in every turn. The number of turns is not bounded.
\<close>

theorem gen_frames_failing_reads:
  assumes "\<forall>sw \<in> set turns. fst (get_frame (snd sw) (fst sw)) = Inr None"
  shows "fst (gen_frames turns) = Running
       \<and> chunks (snd (gen_frames turns)) = []
       \<and> sleeps (snd (gen_frames turns)) = replicate (length turns) backoff"
  using assms
proof (induction turns)
  case Nil
  show ?case by simp
next
  case (Cons sw rest)
  obtain s w where sw: "sw = (s, w)" by (cases sw)
  have none: "fst (get_frame w s) = Inr None"
    using Cons.prems sw by simp
  obtain cs where b: "gen_frames_body (s, w) = (Inr (), cs)"
    using gen_frames_body_no_frame(1) [OF none] by (cases "gen_frames_body (s, w)") simp
  have c: "chunks cs = []" and d: "sleeps cs = [backoff]"
    using gen_frames_body_no_frame(2,3) [OF none] b by simp_all
  have ih: "fst (gen_frames rest) = Running
       \<and> chunks (snd (gen_frames rest)) = []
       \<and> sleeps (snd (gen_frames rest)) = replicate (length rest) backoff"
    using Cons.IH Cons.prems by simp
  obtain st ds where r: "gen_frames rest = (st, ds)" by (cases "gen_frames rest")
  show ?case
    using ih by (simp add: sw b r chunks_append sleeps_append c d)
qed

theorem gen_frames_failing_reads_witness:
  "map (\<lambda>sw. fst (get_frame (snd sw) (fst sw))) failing_turns = [Inr None, Inr None, Inr None]
 \<and> fst (gen_frames failing_turns) = Running
 \<and> chunks (snd (gen_frames failing_turns)) = []
 \<and> sleeps (snd (gen_frames failing_turns)) = replicate (length failing_turns) backoff
 \<and> length failing_turns = 3"
proof -
  have a: "\<forall>sw \<in> set failing_turns. fst (get_frame (snd sw) (fst sw)) = Inr None"
    by code_simp
  have m: "map (\<lambda>sw. fst (get_frame (snd sw) (fst sw))) failing_turns =
      [Inr None, Inr None, Inr None]"
    by code_simp
  have n: "length failing_turns = 3" by code_simp
  show ?thesis
    using m n gen_frames_failing_reads [OF a] by blast
qed

subsection \<open>The framing of a part\<close>

text \<open>
  C7. In a turn in which \<open>get_frame\<close> returns a frame and \<open>imencode\<close> succeeds with a
  nonempty buffer, the generator yields exactly one chunk and does not sleep. The
  chunk is \<open>--frame\<close>, CR LF, \<open>Content-Type: image/jpeg\<close>, CR LF, CR LF, the
  encoded bytes, CR LF; it is longer than its fixed 39 bytes, and the lines in front
  of the payload hold no \<open>Content-Length\<close>.
\<close>

theorem gen_frames_body_yields_part:
  assumes "fst (get_frame w s) = Inr (Some f)"
      and "imencode_answer w = Inr (True, buffer)"
      and "buffer \<noteq> []"
  shows "fst (gen_frames_body (s, w)) = Inr ()
       \<and> chunks (snd (gen_frames_body (s, w))) =
           [''--frame'' @ [CHR 0x0D, CHR 0x0A] @ ''Content-Type: image/jpeg''
              @ [CHR 0x0D, CHR 0x0A, CHR 0x0D, CHR 0x0A] @ buffer @ [CHR 0x0D, CHR 0x0A]]
       \<and> 39 < length (hd (chunks (snd (gen_frames_body (s, w)))))
       \<and> sleeps (snd (gen_frames_body (s, w))) = []
       \<and> \<not> sublist ''Content-Length''
             (''--frame'' @ [CHR 0x0D, CHR 0x0A] @ ''Content-Type: image/jpeg''
                @ [CHR 0x0D, CHR 0x0A, CHR 0x0D, CHR 0x0A])"
proof -
  obtain cs where g: "get_frame w s = (Inr (Some f), cs)"
    using assms(1) by (cases "get_frame w s") simp
  have e: "chunks cs = [] \<and> sleeps cs = []"
    using get_frame_effects [of w s] g by simp
  have b: "gen_frames_body (s, w) = (Inr (), cs @ [Yield (part_header @ buffer @ CRLF)])"
    by (simp add: gen_frames_body_def g assms(2))
  have n: "\<not> sublist ''Content-Length''
             (''--frame'' @ [CHR 0x0D, CHR 0x0A] @ ''Content-Type: image/jpeg''
                @ [CHR 0x0D, CHR 0x0A, CHR 0x0D, CHR 0x0A])"
    by code_simp
  have l: "0 < length buffer" using assms(3) by simp
  show ?thesis
    using n l by (simp add: b chunks_append sleeps_append e part_header_def CRLF_def)
qed

theorem gen_frames_body_yields_part_witness:
  "fst (get_frame webcam_only_world usb_state) = Inr (Some [(1, 2, 3)])
 \<and> imencode_answer webcam_only_world = Inr (True, ''JPEG'')
 \<and> ''JPEG'' \<noteq> []
 \<and> fst (gen_frames_body (usb_state, webcam_only_world)) = Inr ()
 \<and> chunks (snd (gen_frames_body (usb_state, webcam_only_world))) =
     [''--frame'' @ [CHR 0x0D, CHR 0x0A] @ ''Content-Type: image/jpeg''
        @ [CHR 0x0D, CHR 0x0A, CHR 0x0D, CHR 0x0A] @ ''JPEG'' @ [CHR 0x0D, CHR 0x0A]]
 \<and> sleeps (snd (gen_frames_body (usb_state, webcam_only_world))) = []"
proof -
  have a: "fst (get_frame webcam_only_world usb_state) = Inr (Some [(1, 2, 3)])"
    by code_simp
  have b: "imencode_answer webcam_only_world = Inr (True, ''JPEG'')"
    by code_simp
  have c: "''JPEG'' \<noteq> []" by simp
  show ?thesis
    using a b gen_frames_body_yields_part [OF a b c] by simp
qed

subsection \<open>Switching twice to the same kind\<close>

text \<open>
  C8. Two switches in a row to the same known kind, both of whose opens succeed,
  leave the same observable state: after each the backend \<open>get_frame\<close> reads from is
  the requested kind, the label, the response and the health report are equal, and
  the second switch closes the handle the first one opened before it opens its own.
\<close>

theorem switch_camera_twice_same_kind:
  assumes "lower source = ''opencv'' \<or> lower source = ''libcamera''"
      and "opened_by (kind_of source) w1 = Some h1"
      and "opened_by (kind_of source) w2 = Some h2"
      and "s1 = fst (snd (switch_camera source w1 s))"
      and "s2 = fst (snd (switch_camera source w2 s1))"
  shows "active_backend s1 = Some (kind_of source, h1)
       \<and> active_backend s2 = Some (kind_of source, h2)
       \<and> CAMERA_SOURCE s2 = CAMERA_SOURCE s1
       \<and> fst (switch_camera source w2 s1) = fst (switch_camera source w1 s)
       \<and> health_check s2 = health_check s1
       \<and> snd (snd (switch_camera source w2 s1)) =
           close_effect h1 # open_effects (kind_of source) w2"
proof -
  note first = switch_camera_summary [OF assms(1), of w1 s]
  note second = switch_camera_summary [OF assms(1), of w2 s1]
  have a1: "active_backend s1 = Some (kind_of source, h1)"
    using first assms(2,4) by simp
  have a2: "active_backend s2 = Some (kind_of source, h2)"
    using second assms(3,5) by simp
  have l1: "CAMERA_SOURCE s1 = lower source" using first assms(4) by simp
  have l2: "CAMERA_SOURCE s2 = lower source" using second assms(5) by simp
  have r: "fst (switch_camera source w2 s1) = fst (switch_camera source w1 s)"
    using first second assms(2,3) by simp
  have lh: "labelled_handle s1 = Some h1"
    using labelled_handle_after_switch [OF assms(1,2), of s] assms(4) by simp
  have e: "snd (snd (switch_camera source w2 s1)) =
      close_effect h1 # open_effects (kind_of source) w2"
    using second by (simp add: lh)
  have h: "health_check s2 = health_check s1"
    using health_check_after_switch [OF assms(1,2), of s]
      health_check_after_switch [OF assms(1,3), of s1] assms(4,5) by simp
  show ?thesis using a1 a2 l1 l2 r h e by simp
qed

theorem switch_camera_twice_same_kind_witness:
  "(lower ''OpenCV'' = ''opencv'' \<or> lower ''OpenCV'' = ''libcamera'')
 \<and> opened_by (kind_of ''OpenCV'') webcam_only_world =
     Some (Cv_handle \<lparr>cap_id = 1, cap_opened = True\<rparr>)
 \<and> active_backend (fst (snd (switch_camera ''OpenCV'' webcam_only_world sensor_state))) =
     Some (kind_of ''OpenCV'', Cv_handle \<lparr>cap_id = 1, cap_opened = True\<rparr>)
 \<and> active_backend
       (fst (snd (switch_camera ''OpenCV'' webcam_only_world
                    (fst (snd (switch_camera ''OpenCV'' webcam_only_world sensor_state)))))) =
     Some (kind_of ''OpenCV'', Cv_handle \<lparr>cap_id = 1, cap_opened = True\<rparr>)
 \<and> fst (switch_camera ''OpenCV'' webcam_only_world
           (fst (snd (switch_camera ''OpenCV'' webcam_only_world sensor_state)))) =
     fst (switch_camera ''OpenCV'' webcam_only_world sensor_state)
 \<and> snd (snd (switch_camera ''OpenCV'' webcam_only_world
                (fst (snd (switch_camera ''OpenCV'' webcam_only_world sensor_state))))) =
     close_effect (Cv_handle \<lparr>cap_id = 1, cap_opened = True\<rparr>)
       # open_effects (kind_of ''OpenCV'') webcam_only_world"
proof -
  have a: "lower ''OpenCV'' = ''opencv'' \<or> lower ''OpenCV'' = ''libcamera''"
    by code_simp
  have b: "opened_by (kind_of ''OpenCV'') webcam_only_world =
      Some (Cv_handle \<lparr>cap_id = 1, cap_opened = True\<rparr>)"
    by code_simp
  show ?thesis
    using a b switch_camera_twice_same_kind [OF a b b refl refl, of sensor_state] by simp
qed

subsection \<open>Frames of the tuned sensor\<close>

text \<open>
  C9. With a sensor handle stored, a capture that delivers a frame of nonzero size is
  returned with the same number of pixels, each with its first and third channel
  exchanged (RGB to BGR); a capture that delivers \<open>None\<close> or a frame of size zero, or
  that raises, makes \<open>get_frame_libcamera\<close> return \<open>None\<close>, never an exception.
\<close>

theorem get_frame_libcamera_reorders:
  assumes "libcamera_camera s = Some h"
  shows "(capture_array_answer w = Inr (Some f) \<and> frame_size f \<noteq> 0 \<longrightarrow>
            (\<exists>out. get_frame_libcamera w s = (Inr (Some out), [Lc_capture_array (cam_id h)])
               \<and> length out = length f
               \<and> (\<forall>i<length f. out ! i = (case f ! i of (r, g, b) \<Rightarrow> (b, g, r)))))
       \<and> (capture_array_answer w = Inr None
            \<or> (\<exists>z. capture_array_answer w = Inr (Some z) \<and> frame_size z = 0)
            \<or> (\<exists>e. capture_array_answer w = Inl e) \<longrightarrow>
          get_frame_libcamera w s = (Inr None, [Lc_capture_array (cam_id h)]))"
  using assms
  by (auto simp add: get_frame_libcamera_def cvtColor_RGB2BGR_def split: prod.splits)

theorem get_frame_libcamera_reorders_witness:
  "libcamera_camera sensor_state = Some (Picamera2 1)
 \<and> capture_array_answer (sensor_world 1) = Inr (Some [(1, 2, 3), (4, 5, 6)])
 \<and> frame_size [(1, 2, 3), (4, 5, 6)] \<noteq> 0
 \<and> (\<exists>out. get_frame_libcamera (sensor_world 1) sensor_state =
             (Inr (Some out), [Lc_capture_array (cam_id (Picamera2 1))])
        \<and> length out = length [(1 :: 8 word, 2 :: 8 word, 3 :: 8 word), (4, 5, 6)]
        \<and> (\<forall>i<length [(1 :: 8 word, 2 :: 8 word, 3 :: 8 word), (4, 5, 6)].
              out ! i = (case [(1, 2, 3), (4, 5, 6)] ! i of (r, g, b) \<Rightarrow> (b, g, r))))
 \<and> get_frame_libcamera (sensor_world 1) sensor_state =
     (Inr (Some [(3, 2, 1), (6, 5, 4)]), [Lc_capture_array 1])
 \<and> capture_array_answer quiet_world = Inr None
 \<and> get_frame_libcamera quiet_world sensor_state =
     (Inr None, [Lc_capture_array (cam_id (Picamera2 1))])"
proof -
  have a: "libcamera_camera sensor_state = Some (Picamera2 1)" by code_simp
  have b: "capture_array_answer (sensor_world 1) = Inr (Some [(1, 2, 3), (4, 5, 6)])"
    by code_simp
  have c: "frame_size [(1, 2, 3), (4, 5, 6)] \<noteq> 0" by code_simp
  have d: "capture_array_answer quiet_world = Inr None" by code_simp
  have e: "get_frame_libcamera (sensor_world 1) sensor_state =
      (Inr (Some [(3, 2, 1), (6, 5, 4)]), [Lc_capture_array 1])"
    by code_simp
  show ?thesis
    using a b c d e
      get_frame_libcamera_reorders [OF a, of "sensor_world 1" "[(1, 2, 3), (4, 5, 6)]"]
      get_frame_libcamera_reorders [OF a, of quiet_world "[]"]
    by simp
qed

subsection \<open>What the label selects\<close>

text \<open>
  C10, as the claim states it, fails for the health check: under the label \<open>usb\<close>
  \<open>get_frame\<close> reads from the open webcam, and \<open>health_check\<close> reports no working
  camera, where under the label \<open>opencv\<close> it reports the same webcam as working.
\<close>

theorem health_check_label_counterexample:
  "get_frame webcam_only_world usb_state = (Inr (Some [(1, 2, 3)]), [Cv_read 1])
 \<and> health_check usb_state =
     \<lparr>status = ''unhealthy'', camera_source = ''usb'', camera_working = False\<rparr>
 \<and> health_check (usb_state\<lparr>CAMERA_SOURCE := ''opencv''\<rparr>) =
     \<lparr>status = ''healthy'', camera_source = ''opencv'', camera_working = True\<rparr>"
  by code_simp

text \<open>
  C10, amended. For every label that is not \<open>libcamera\<close> in any letter case, frame
  retrieval reads from the direct device. The health check reports a working camera
  only under a label that is \<open>opencv\<close> in any letter case with a stored webcam handle
  that reports opened, or under a label that is \<open>libcamera\<close> in any letter case with
  a stored sensor handle; under every other label it reports none. \<open>switch_camera\<close>
  looks at the requested source in lower case only, and stores an accepted source in
  lower case.
\<close>

theorem camera_source_label_dispatch:
  "(lower (CAMERA_SOURCE s) \<noteq> ''libcamera'' \<longrightarrow> get_frame w s = get_frame_opencv w s)
 \<and> camera_working (health_check s) =
     (lower (CAMERA_SOURCE s) = ''opencv'' \<and> (\<exists>h. opencv_camera s = Some h \<and> cap_opened h)
      \<or> lower (CAMERA_SOURCE s) = ''libcamera'' \<and> libcamera_camera s \<noteq> None)
 \<and> (lower a = lower b \<longrightarrow> switch_camera a w s = switch_camera b w s)
 \<and> (lower source = ''opencv'' \<or> lower source = ''libcamera'' \<longrightarrow>
       CAMERA_SOURCE (fst (snd (switch_camera source w s))) = lower source)"
proof -
  have 1: "lower (CAMERA_SOURCE s) \<noteq> ''libcamera'' \<longrightarrow> get_frame w s = get_frame_opencv w s"
    by (simp add: get_frame_def)
  have 2: "camera_working (health_check s) =
     (lower (CAMERA_SOURCE s) = ''opencv'' \<and> (\<exists>h. opencv_camera s = Some h \<and> cap_opened h)
      \<or> lower (CAMERA_SOURCE s) = ''libcamera'' \<and> libcamera_camera s \<noteq> None)"
    by (cases "opencv_camera s") (auto simp add: health_check_def Let_def)
  have 3: "lower a = lower b \<longrightarrow> switch_camera a w s = switch_camera b w s"
    by (simp add: switch_camera_def)
  have 4: "lower source = ''opencv'' \<or> lower source = ''libcamera'' \<longrightarrow>
       CAMERA_SOURCE (fst (snd (switch_camera source w s))) = lower source"
    using switch_camera_summary [of source w s] by simp
  show ?thesis using 1 2 3 4 by simp
qed

theorem camera_source_label_dispatch_witness:
  "lower (CAMERA_SOURCE usb_state) \<noteq> ''libcamera''
 \<and> get_frame webcam_only_world usb_state = get_frame_opencv webcam_only_world usb_state
 \<and> \<not> camera_working (health_check usb_state)
 \<and> lower ''OpenCV'' = lower ''opencv''
 \<and> switch_camera ''OpenCV'' webcam_only_world usb_state =
     switch_camera ''opencv'' webcam_only_world usb_state
 \<and> (lower ''OpenCV'' = ''opencv'' \<or> lower ''OpenCV'' = ''libcamera'')
 \<and> CAMERA_SOURCE (fst (snd (switch_camera ''OpenCV'' webcam_only_world usb_state))) =
     lower ''OpenCV''"
proof -
  note t = camera_source_label_dispatch
    [of usb_state webcam_only_world "''OpenCV''" "''opencv''" "''OpenCV''"]
  have a: "lower (CAMERA_SOURCE usb_state) \<noteq> ''libcamera''" by code_simp
  have b: "lower ''OpenCV'' = lower ''opencv''" by code_simp
  have c: "lower ''OpenCV'' = ''opencv'' \<or> lower ''OpenCV'' = ''libcamera''" by code_simp
  have d: "lower (CAMERA_SOURCE usb_state) \<noteq> ''opencv''" by code_simp
  have 1: "get_frame webcam_only_world usb_state = get_frame_opencv webcam_only_world usb_state"
    using a t by blast
  have 2: "\<not> camera_working (health_check usb_state)"
    using a d t by blast
  have 3: "switch_camera ''OpenCV'' webcam_only_world usb_state =
      switch_camera ''opencv'' webcam_only_world usb_state"
    using b t by blast
  have 4: "CAMERA_SOURCE (fst (snd (switch_camera ''OpenCV'' webcam_only_world usb_state))) =
      lower ''OpenCV''"
    using c t by blast
  show ?thesis
    using a b c 1 2 3 4 by blast
qed

end
